theory Spec2Isabelle
  imports Complex_Main
begin

section \<open>The FIFO ledger of tw-pnl.py\<close>

text \<open>
  The script keeps one dictionary \<^verbatim>\<open>fifos\<close> from asset keys to deques of two-element
  lists \<^verbatim>\<open>[price, quantity]\<close>. A lot is modelled as a pair (price first, quantity second,
  as in the source), a deque as a list whose head is \<^verbatim>\<open>fifo[0]\<close>, and the dictionary as
  a partial map. Quantities are Python integers (\<open>int\<close>); prices and profit-and-loss
  values are Python floats, taken here as reals: rounding and infinities are not part of
  the model. An integer too large for a float makes the products of the loop raise; that
  case is written out in a second version of the loop further down.
\<close>

type_synonym lot = "real \<times> int"

type_synonym fifos = "string \<rightharpoonup> lot list"

text \<open>
  The exceptions the modelled code can raise. A bare \<^verbatim>\<open>raise\<close> with no active exception
  is a \<^verbatim>\<open>RuntimeError\<close> in Python 3.
\<close>

datatype error =
    RuntimeError | KeyError | IndexError | ZeroDivisionError | TypeError | ValueError
  | OverflowError

text \<open>Line 140 of the source: \<^verbatim>\<open>fifos = {}\<close>.\<close>

definition fifos_init :: fifos where
  "fifos_init = Map.empty"

text \<open>Lines 93 to 96. Zero counts as positive.\<close>

definition sign :: "int \<Rightarrow> int" where
  "sign x = (if x \<ge> 0 then 1 else - 1)"

text \<open>
  The \<^verbatim>\<open>while\<close> loop of lines 112 to 126, run on the deque of the asset. It is left in
  one of two ways: by the \<^verbatim>\<open>return pnl\<close> of line 122 (\<open>Returned\<close>, with the deque as
  it then is, or \<open>None\<close> when line 121 deleted the key), or by falling out of the loop,
  through the \<^verbatim>\<open>break\<close> of line 114 or because the deque ran empty (\<open>Exited\<close>, with the
  accumulated pnl, the deque and the residual quantity).
\<close>

datatype loop_result =
    Returned real "lot list option"
  | Exited real "lot list" int

fun fifo_loop :: "lot list \<Rightarrow> int \<Rightarrow> real \<Rightarrow> real \<Rightarrow> loop_result" where
  "fifo_loop [] quantity price pnl = Exited pnl [] quantity"
| "fifo_loop ((p, q) # rest) quantity price pnl =
     (if sign q = sign quantity then Exited pnl ((p, q) # rest) quantity
      else if \<bar>q\<bar> \<ge> \<bar>quantity\<bar> then
        (if q + quantity = 0
         then (if rest = [] then Returned (pnl + of_int quantity * (p - price)) None
               else Returned (pnl + of_int quantity * (p - price)) (Some rest))
         else Returned (pnl + of_int quantity * (p - price)) (Some ((p, q + quantity) # rest)))
      else fifo_loop rest (quantity + q) price (pnl + of_int q * (price - p)))"

text \<open>
  Lines 106 to 128, the body of \<^verbatim>\<open>fifo_add\<close> behind the debug switch: the deque of the
  asset is created when the key is missing, the loop runs on it, and after the loop the
  residual is appended (line 127). The deque is shared with the dictionary, so its final
  content is what the dictionary holds for the asset.
\<close>

definition fifo_match :: "fifos \<Rightarrow> int \<Rightarrow> real \<Rightarrow> string \<Rightarrow> real \<times> fifos" where
  "fifo_match fifos quantity price asset =
     (let fifo = (case fifos asset of None \<Rightarrow> [] | Some f \<Rightarrow> f) in
      case fifo_loop fifo quantity price 0 of
        Returned pnl None \<Rightarrow> (pnl, fifos(asset := None))
      | Returned pnl (Some f) \<Rightarrow> (pnl, fifos(asset \<mapsto> f))
      | Exited pnl f residual \<Rightarrow> (pnl, fifos(asset \<mapsto> f @ [(price, residual)])))"

text \<open>
  Lines 98 to 128. With \<^verbatim>\<open>debug\<close> set, line 100 calls \<^verbatim>\<open>print_fifos()\<close> without its
  argument, which is a \<^verbatim>\<open>TypeError\<close>; the default is \<^verbatim>\<open>debug=False\<close>, and the only call
  of the script (line 261) uses the default.
\<close>

definition fifo_add :: "fifos \<Rightarrow> int \<Rightarrow> real \<Rightarrow> string \<Rightarrow> bool \<Rightarrow> error + (real \<times> fifos)" where
  "fifo_add fifos quantity price asset debug =
     (if debug then Inl TypeError else Inr (fifo_match fifos quantity price asset))"

text \<open>Lines 130 and 131: \<^verbatim>\<open>fifos[asset][0][1] > 0\<close>, with the two lookups that can fail.\<close>

definition fifos_islong :: "fifos \<Rightarrow> string \<Rightarrow> error + bool" where
  "fifos_islong fifos asset =
     (case fifos asset of
        None \<Rightarrow> Inl KeyError
      | Some [] \<Rightarrow> Inl IndexError
      | Some ((p, q) # rest) \<Rightarrow> Inr (q > 0))"

section \<open>The conversion of integers in the products\<close>






section \<open>Sequences of calls\<close>

text \<open>
  A call of the ledger is written (asset, quantity, price). \<open>run_matches\<close> makes the
  calls of a list one after the other, each on the dictionary the one before left, with
  the debug switch at its default.
\<close>

type_synonym call = "string \<times> int \<times> real"

fun run_matches :: "fifos \<Rightarrow> call list \<Rightarrow> error + fifos" where
  "run_matches fifos [] = Inr fifos"
| "run_matches fifos ((asset, quantity, price) # calls) =
     (case fifo_add fifos quantity price asset False of
        Inl e \<Rightarrow> Inl e
      | Inr (pnl, fifos') \<Rightarrow> run_matches fifos' calls)"

definition nonzero_calls :: "call list \<Rightarrow> bool" where
  "nonzero_calls calls = list_all (\<lambda>(asset, quantity, price). quantity \<noteq> 0) calls"

text \<open>The quantities of the calls made for one asset, added up.\<close>

fun net_calls :: "string \<Rightarrow> call list \<Rightarrow> int" where
  "net_calls a [] = 0"
| "net_calls a ((asset, quantity, price) # calls) =
     (if asset = a then quantity else 0) + net_calls a calls"

text \<open>The net open quantity of an asset: the quantities of its lots, added up.\<close>

definition net_open :: "fifos \<Rightarrow> string \<Rightarrow> int" where
  "net_open fifos a = (case fifos a of None \<Rightarrow> 0 | Some fifo \<Rightarrow> sum_list (map snd fifo))"

text \<open>
  The invariant of a queue: no lot has quantity zero, and any two lots have the same
  sign.
\<close>

definition lots_ok :: "lot list \<Rightarrow> bool" where
  "lots_ok fifo =
     (list_all (\<lambda>l. snd l \<noteq> 0) fifo
      \<and> list_all (\<lambda>l. list_all (\<lambda>l'. sgn (snd l) = sgn (snd l')) fifo) fifo)"

section \<open>The trade branch of the processing loop\<close>

text \<open>
  The branch of \<^verbatim>\<open>check\<close> for rows that are not money movements (lines 241 to 261),
  with the reading of the price in lines 185 to 189. A row holds the columns the branch
  reads. Text columns hold what \<^verbatim>\<open>str\<close> gives (\<^verbatim>\<open>'nan'\<close> for an empty cell); the
  expiration date, the price and the amount are \<open>None\<close> for NaN, which the code tests
  for. The quantity is the integer of line 181 and the fees are a real: rows whose
  quantity or fees are NaN are not part of the model. Prices and amounts are floats: a
  file whose Price column holds whole numbers only, which pandas reads as fixed-width
  integers, is not part of the model either.
\<close>

record row =
  Transaction_Subcode :: string
  Buy_Sell :: string
  Call_Put :: string
  Symbol :: string
  Expiration_Date :: "string option"
  Strike :: real
  Quantity :: int
  Price :: "real option"
  Amount :: "real option"
  Fees :: real

definition bind_error :: "error + 'a \<Rightarrow> ('a \<Rightarrow> error + 'b) \<Rightarrow> error + 'b" where
  "bind_error r f = (case r of Inl e \<Rightarrow> Inl e | Inr x \<Rightarrow> f x)"

text \<open>Lines 76 to 91; the message printed before the \<^verbatim>\<open>raise\<close> is left out.\<close>

definition is_stock :: "string \<Rightarrow> bool \<Rightarrow> error + bool" where
  "is_stock symbol conservative =
     (if symbol \<in> set [''DXJ'', ''EEM'', ''EFA'', ''EFA'', ''EWZ'', ''FEZ'', ''FXB'', ''FXE'', ''FXI'',
          ''GDX'', ''GDXJ'', ''GLD'', ''HYG'', ''IEF'', ''IWM'', ''IYR'', ''KRE'', ''OIH'', ''QQQ'',
          ''RSX'', ''SLV'', ''SMH'', ''SPY'', ''TLT'', ''UNG'', ''USO'', ''VXX'', ''XBI'', ''XHB'', ''XLB'',
          ''XLE'', ''XLF'', ''XLI'', ''XLK'', ''XLP'', ''XLU'', ''XLV'', ''XME'', ''XOP'', ''XRT'']
      then Inr False
      else if symbol \<in> set [''M'', ''AAPL'', ''TSLA''] then Inr True
      else if conservative then Inl RuntimeError
      else Inr True)"

text \<open>
  \<^verbatim>\<open>math.isclose(a, b, abs_tol=0.00001)\<close> with the default relative tolerance of 1e-09,
  on reals.
\<close>

definition isclose :: "real \<Rightarrow> real \<Rightarrow> bool" where
  "isclose a b =
     (a = b \<or> \<bar>b - a\<bar> \<le> \<bar>b\<bar> / 1000000000 \<or> \<bar>b - a\<bar> \<le> \<bar>a\<bar> / 1000000000
      \<or> \<bar>b - a\<bar> \<le> 1 / 100000)"

text \<open>
  Lines 63 to 72. The amount computed by the caller is a number in this model, so only
  the amount of the row can be NaN.
\<close>

definition check_trade :: "string \<Rightarrow> real \<Rightarrow> real option \<Rightarrow> error + unit" where
  "check_trade tsubcode check_amount amount =
     (if tsubcode \<notin> set [''Expiration'', ''Assignment'', ''Exercise'']
      then (case amount of
              None \<Rightarrow> Inl RuntimeError
            | Some a \<Rightarrow> if \<not> isclose check_amount a then Inl RuntimeError else Inr ())
      else (case amount of
              None \<Rightarrow> if check_amount \<noteq> 0 then Inl RuntimeError else Inr ()
            | Some a \<Rightarrow>
                if a \<noteq> 0 then Inl RuntimeError
                else if check_amount \<noteq> 0 then Inl RuntimeError
                else Inr ()))"

text \<open>
  Lines 242 to 252: the asset key, the price used by the consistency check, and
  \<^verbatim>\<open>check_stock\<close>. \<open>option_key\<close> stands for what lines 245 and 247 to 249 give on the
  row: the key \<^verbatim>\<open>'%s %s%s %s' % (symbol, callput, strike, expire)\<close>, or the exception
  that \<^verbatim>\<open>strptime\<close> or \<^verbatim>\<open>int\<close> raise; the date and number formatting of the Python
  library is not modelled.
\<close>

definition asset_of :: "error + string \<Rightarrow> row \<Rightarrow> real \<Rightarrow> error + (real \<times> string \<times> bool)" where
  "asset_of option_key r price =
     (case Expiration_Date r of
        Some expire \<Rightarrow> bind_error option_key (\<lambda>asset. Inr (price * 100, asset, False))
      | None \<Rightarrow>
          bind_error (is_stock (Symbol r) True)
            (\<lambda>check_stock. Inr (price, Symbol r, check_stock)))"

text \<open>
  Lines 256 to 258: the quantity is negated for a sale, and for an expiration, exercise
  or assignment when \<^verbatim>\<open>fifos_islong\<close> says so. The \<^verbatim>\<open>or\<close> and the \<^verbatim>\<open>and\<close> of Python
  evaluate their right operand only when needed.
\<close>

definition signed_quantity :: "fifos \<Rightarrow> string \<Rightarrow> string \<Rightarrow> string \<Rightarrow> int \<Rightarrow> error + int" where
  "signed_quantity fifos asset buysell tsubcode quantity =
     (if buysell = ''Sell'' then Inr (- quantity)
      else if tsubcode \<in> set [''Expiration'', ''Exercise'', ''Assignment'']
      then bind_error (fifos_islong fifos asset)
             (\<lambda>long. Inr (if long then - quantity else quantity))
      else Inr quantity)"

text \<open>
  Lines 185 to 189 and 242 to 261, up to the call of \<^verbatim>\<open>fifo_add\<close>: the result is the
  quantity, the price and the asset passed to the call in line 261, and \<^verbatim>\<open>check_stock\<close>.
  Line 260 divides by the quantity, which raises for zero; the price is NaN (\<open>None\<close>)
  when the amount is.
\<close>

definition trade_call ::
  "error + string \<Rightarrow> fifos \<Rightarrow> row \<Rightarrow> error + (int \<times> real option \<times> string \<times> bool)" where
  "trade_call option_key fifos r =
     (let price = (case Price r of None \<Rightarrow> 0 | Some p \<Rightarrow> p) in
      if price < 0 then Inl RuntimeError
      else
        bind_error (asset_of option_key r price)
          (\<lambda>(price, asset, check_stock).
             bind_error
               (signed_quantity fifos asset (Buy_Sell r) (Transaction_Subcode r) (Quantity r))
               (\<lambda>quantity.
                  bind_error
                    (check_trade (Transaction_Subcode r) (- (of_int quantity * price)) (Amount r))
                    (\<lambda>u. if quantity = 0 then Inl ZeroDivisionError
                         else Inr (quantity,
                                   map_option (\<lambda>amount. \<bar>(amount - Fees r) / of_int quantity\<bar>)
                                     (Amount r),
                                   asset, check_stock)))))"

section \<open>Single calls\<close>

text \<open>
  C1. FIFO matching is oldest-first: with no entry for the asset, after buying 5 at 100
  and 5 at 200, selling 5 at 150 is matched with the lot bought at 100, realises
  5 * (150 - 100) = 250, and leaves the queue holding the single lot of 5 at 200.
\<close>

theorem fifo_oldest_first:
  assumes "fifos a = None"
  shows "fifo_add fifos 5 100 a False = Inr (0, fifos(a \<mapsto> [(100, 5)]))
       \<and> fifo_add (fifos(a \<mapsto> [(100, 5)])) 5 200 a False
           = Inr (0, fifos(a \<mapsto> [(100, 5), (200, 5)]))
       \<and> fifo_add (fifos(a \<mapsto> [(100, 5), (200, 5)])) (- 5) 150 a False
           = Inr (250, fifos(a \<mapsto> [(200, 5)]))"
  using assms by (simp add: fifo_add_def fifo_match_def sign_def)

theorem fifo_oldest_first_witness:
  "fifos_init ''AAPL'' = None
   \<and> fifo_add fifos_init 5 100 ''AAPL'' False = Inr (0, fifos_init(''AAPL'' \<mapsto> [(100, 5)]))
   \<and> fifo_add (fifos_init(''AAPL'' \<mapsto> [(100, 5)])) 5 200 ''AAPL'' False
       = Inr (0, fifos_init(''AAPL'' \<mapsto> [(100, 5), (200, 5)]))
   \<and> fifo_add (fifos_init(''AAPL'' \<mapsto> [(100, 5), (200, 5)])) (- 5) 150 ''AAPL'' False
       = Inr (250, fifos_init(''AAPL'' \<mapsto> [(200, 5)]))"
proof -
  have h: "fifos_init ''AAPL'' = None" by (simp add: fifos_init_def)
  show ?thesis using h fifo_oldest_first [of fifos_init "''AAPL''"] by simp
qed

text \<open>
  C2, as amended. A call with quantity zero returns a pnl of 0 and leaves the queues of
  all other assets as they are. The queue of the asset itself is unchanged only when its
  front lot is short; when the asset has no entry, an empty queue, or a front lot with
  quantity zero or more, the lot (price, 0) is appended, the entry being created when it
  is missing.
\<close>

theorem zero_quantity_call:
  "fifo_add fifos 0 price asset False =
     Inr (0, case fifos asset of
               None \<Rightarrow> fifos(asset \<mapsto> [(price, 0)])
             | Some [] \<Rightarrow> fifos(asset \<mapsto> [(price, 0)])
             | Some ((p, q) # rest) \<Rightarrow>
                 if q < 0 then fifos else fifos(asset \<mapsto> ((p, q) # rest) @ [(price, 0)]))"
proof (cases "fifos asset")
  case None
  then show ?thesis by (simp add: fifo_add_def fifo_match_def)
next
  case (Some fifo)
  show ?thesis
  proof (cases fifo)
    case Nil
    with Some show ?thesis by (simp add: fifo_add_def fifo_match_def)
  next
    case (Cons l rest)
    obtain p q where l: "l = (p, q)" by (cases l)
    have triv: "fifos(asset \<mapsto> (p, q) # rest) = fifos"
      using Some Cons l by (simp add: map_upd_triv)
    show ?thesis
      using Some Cons l triv by (simp add: fifo_add_def fifo_match_def sign_def)
  qed
qed

theorem zero_quantity_call_witness:
  "fifo_add (fifos_init(''AAPL'' \<mapsto> [(100, - 5)])) 0 90 ''AAPL'' False
     = Inr (0, fifos_init(''AAPL'' \<mapsto> [(100, - 5)]))
   \<and> fifo_add (fifos_init(''AAPL'' \<mapsto> [(100, 5)])) 0 90 ''AAPL'' False
     = Inr (0, fifos_init(''AAPL'' \<mapsto> [(100, 5), (90, 0)]))"
  using zero_quantity_call [of "fifos_init(''AAPL'' \<mapsto> [(100, - 5)])" 90 "''AAPL''"]
    zero_quantity_call [of "fifos_init(''AAPL'' \<mapsto> [(100, 5)])" 90 "''AAPL''"]
  by simp

text \<open>
  The claim as first stated (the ledger is left unchanged) fails on the empty ledger: the
  call creates the entry and appends a lot of quantity zero.
\<close>

theorem zero_quantity_counterexample:
  "fifo_add fifos_init 0 100 ''AAPL'' False = Inr (0, fifos_init(''AAPL'' \<mapsto> [(100, 0)]))
   \<and> fifos_init(''AAPL'' \<mapsto> [(100, 0)]) \<noteq> fifos_init"
proof -
  have "(fifos_init(''AAPL'' \<mapsto> [(100, 0)])) ''AAPL'' \<noteq> fifos_init ''AAPL''"
    by (simp add: fifos_init_def)
  then have "fifos_init(''AAPL'' \<mapsto> [(100, 0)]) \<noteq> fifos_init"
    by metis
  then show ?thesis
    by (simp add: fifo_add_def fifo_match_def fifos_init_def)
qed

text \<open>
  C6. Full absorption returns at once: when the front lot and the incoming quantity differ
  in sign (by the \<^verbatim>\<open>sign\<close> of the source) and the front lot is at least as large in
  magnitude, the loop adds quantity * (front price - price) to the pnl, adds the quantity
  to the front lot, drops the lot when it becomes zero and the key when the queue is then
  empty, and returns; the lots behind the front one are neither read nor changed. The
  second part states the same for a whole call on a ledger whose queue starts with that
  lot.
\<close>

theorem full_absorption_returns:
  assumes "sign q \<noteq> sign quantity" and "\<bar>q\<bar> \<ge> \<bar>quantity\<bar>"
  shows "fifo_loop ((p, q) # rest) quantity price pnl =
           Returned (pnl + of_int quantity * (p - price))
             (if q + quantity = 0 then (if rest = [] then None else Some rest)
              else Some ((p, q + quantity) # rest))
       \<and> (fifos asset = Some ((p, q) # rest) \<longrightarrow>
           fifo_add fifos quantity price asset False =
             Inr (of_int quantity * (p - price),
                  if q + quantity = 0
                  then (if rest = [] then fifos(asset := None) else fifos(asset \<mapsto> rest))
                  else fifos(asset \<mapsto> (p, q + quantity) # rest)))"
  using assms by (simp add: fifo_add_def fifo_match_def)

theorem full_absorption_returns_witness:
  "sign 10 \<noteq> sign (- 4) \<and> \<bar>10 :: int\<bar> \<ge> \<bar>- 4\<bar>
   \<and> fifo_loop [(100, 10), (105, 3)] (- 4) 110 0 = Returned 40 (Some [(100, 6), (105, 3)])
   \<and> fifo_add (fifos_init(''AAPL'' \<mapsto> [(100, 10), (105, 3)])) (- 4) 110 ''AAPL'' False
       = Inr (40, fifos_init(''AAPL'' \<mapsto> [(100, 6), (105, 3)]))"
proof -
  have s: "sign 10 \<noteq> sign (- 4)" by (simp add: sign_def)
  have a: "\<bar>10 :: int\<bar> \<ge> \<bar>- 4\<bar>" by simp
  from full_absorption_returns [OF s a, of 100 "[(105, 3)]" 110 0
      "fifos_init(''AAPL'' \<mapsto> [(100, 10), (105, 3)])" "''AAPL''"] s a
  show ?thesis by simp
qed









text \<open>
  With the debug switch set, which the script never does, every call stops at line 100.
\<close>

lemma fifo_add_debug: "fifo_add fifos quantity price asset True = Inl TypeError"
  by (simp add: fifo_add_def)

lemma fifo_match_other:
  "k \<noteq> asset \<Longrightarrow> snd (fifo_match fifos quantity price asset) k = fifos k"
  by (simp add: fifo_match_def Let_def split: loop_result.splits option.splits)

lemma fifo_match_local:
  assumes "fifos1 asset = fifos2 asset"
  shows "fst (fifo_match fifos1 quantity price asset) = fst (fifo_match fifos2 quantity price asset)"
    and "snd (fifo_match fifos1 quantity price asset) asset = snd (fifo_match fifos2 quantity price asset) asset"
  using assms by (simp_all add: fifo_match_def Let_def split: loop_result.splits option.splits)

text \<open>
  C9. Frame property: a call leaves the queue of every other asset unchanged, and its pnl
  and the new queue of its asset depend only on the queue of that asset and on the
  arguments: two ledgers that agree on the asset give the same pnl and the same new queue.
\<close>

theorem fifo_add_frame:
  assumes "fifo_add fifos1 quantity price asset False = Inr (pnl1, fifos1')"
    and "fifo_add fifos2 quantity price asset False = Inr (pnl2, fifos2')"
    and "fifos1 asset = fifos2 asset"
  shows "(\<forall>k. k \<noteq> asset \<longrightarrow> fifos1' k = fifos1 k)
       \<and> pnl1 = pnl2 \<and> fifos1' asset = fifos2' asset"
proof -
  have m1: "fifo_match fifos1 quantity price asset = (pnl1, fifos1')"
    and m2: "fifo_match fifos2 quantity price asset = (pnl2, fifos2')"
    using assms(1,2) by (simp_all add: fifo_add_def)
  have "\<forall>k. k \<noteq> asset \<longrightarrow> fifos1' k = fifos1 k"
    using fifo_match_other [of _ asset fifos1 quantity price] m1 by simp
  moreover have "pnl1 = pnl2"
    using fifo_match_local(1) [of fifos1 asset fifos2 quantity price] assms(3) m1 m2 by simp
  moreover have "fifos1' asset = fifos2' asset"
    using fifo_match_local(2) [of fifos1 asset fifos2 quantity price] assms(3) m1 m2 by simp
  ultimately show ?thesis by simp
qed

theorem fifo_add_frame_witness:
  "fifo_add (fifos_init(''AAPL'' \<mapsto> [(100, 5)], ''TSLA'' \<mapsto> [(50, 1)])) (- 5) 120 ''AAPL'' False
     = Inr (100, (fifos_init(''AAPL'' \<mapsto> [(100, 5)], ''TSLA'' \<mapsto> [(50, 1)]))(''AAPL'' := None))
   \<and> fifo_add (fifos_init(''AAPL'' \<mapsto> [(100, 5)])) (- 5) 120 ''AAPL'' False
     = Inr (100, (fifos_init(''AAPL'' \<mapsto> [(100, 5)]))(''AAPL'' := None))
   \<and> ((fifos_init(''AAPL'' \<mapsto> [(100, 5)], ''TSLA'' \<mapsto> [(50, 1)]))(''AAPL'' := None)) ''TSLA''
     = (fifos_init(''AAPL'' \<mapsto> [(100, 5)], ''TSLA'' \<mapsto> [(50, 1)])) ''TSLA''
   \<and> ((fifos_init(''AAPL'' \<mapsto> [(100, 5)], ''TSLA'' \<mapsto> [(50, 1)]))(''AAPL'' := None)) ''AAPL''
     = ((fifos_init(''AAPL'' \<mapsto> [(100, 5)]))(''AAPL'' := None)) ''AAPL''"
proof -
  let ?f1 = "fifos_init(''AAPL'' \<mapsto> [(100, 5)], ''TSLA'' \<mapsto> [(50, 1)])"
  let ?f2 = "fifos_init(''AAPL'' \<mapsto> [(100, 5)])"
  have a: "fifo_add ?f1 (- 5) 120 ''AAPL'' False = Inr (100, ?f1(''AAPL'' := None))"
    by (simp add: fifo_add_def fifo_match_def sign_def)
  have b: "fifo_add ?f2 (- 5) 120 ''AAPL'' False = Inr (100, ?f2(''AAPL'' := None))"
    by (simp add: fifo_add_def fifo_match_def sign_def)
  have c: "?f1 ''AAPL'' = ?f2 ''AAPL''" by simp
  from fifo_add_frame [OF a b c] a b show ?thesis by simp
qed

lemma consume_step:
  assumes "sign q0 \<noteq> sign r" and "\<bar>q0\<bar> < \<bar>r\<bar>"
  shows "r + q0 \<noteq> 0" and "sgn (r + q0) = sgn r" and "sign (r + q0) = sign r"
  using assms by (auto simp: sign_def sgn_if split: if_splits)

lemma fifo_loop_exit_sign:
  "quantity \<noteq> 0 \<Longrightarrow> fifo_loop fifo quantity price pnl = Exited pnl' f residual
     \<Longrightarrow> residual \<noteq> 0 \<and> sgn residual = sgn quantity"
proof (induction fifo arbitrary: quantity pnl)
  case Nil
  then show ?case by simp
next
  case (Cons l rest)
  obtain p q where l: "l = (p, q)" by (cases l)
  show ?case
  proof (cases "sign q = sign quantity")
    case True
    with Cons.prems l show ?thesis by simp
  next
    case False
    note opp = this
    show ?thesis
    proof (cases "\<bar>q\<bar> \<ge> \<bar>quantity\<bar>")
      case True
      with Cons.prems opp l show ?thesis by (simp split: if_splits)
    next
      case False
      then have lt: "\<bar>q\<bar> < \<bar>quantity\<bar>" by simp
      have nz: "quantity + q \<noteq> 0" and sg: "sgn (quantity + q) = sgn quantity"
        using consume_step [OF opp lt] by simp_all
      have "fifo_loop rest (quantity + q) price (pnl + of_int q * (price - p))
              = Exited pnl' f residual"
        using Cons.prems(2) opp False l by simp
      from Cons.IH [OF nz this] sg show ?thesis by simp
    qed
  qed
qed

text \<open>
  C10. Within one call the residual quantity keeps its sign and never becomes zero. In the
  branch that consumes the front lot (signs differ, front lot smaller in magnitude) the
  new residual r + q0 is not zero and has the sign of r; so, for a quantity that is not
  zero, the residual with which the loop is left is not zero and has the sign of the
  quantity of the call, and this residual is the quantity of the lot that line 127
  appends. The loop is never left with a residual of zero.
\<close>

theorem residual_keeps_sign:
  "(sign q0 \<noteq> sign r \<and> \<bar>q0\<bar> < \<bar>r\<bar> \<longrightarrow>
      r + q0 \<noteq> 0 \<and> sgn (r + q0) = sgn r \<and> sign (r + q0) = sign r)
   \<and> (quantity \<noteq> 0 \<and> fifo_loop fifo quantity price pnl = Exited pnl' f residual \<longrightarrow>
      residual \<noteq> 0 \<and> sgn residual = sgn quantity)
   \<and> (quantity \<noteq> 0 \<and> fifos asset = Some fifo
        \<and> fifo_loop fifo quantity price 0 = Exited pnl' f residual \<longrightarrow>
      fifo_add fifos quantity price asset False
        = Inr (pnl', fifos(asset \<mapsto> f @ [(price, residual)])))"
  using consume_step [of q0 r] fifo_loop_exit_sign [of quantity fifo price pnl pnl' f residual]
  by (auto simp: fifo_add_def fifo_match_def)

theorem residual_keeps_sign_witness:
  "sign 5 \<noteq> sign (- 8) \<and> \<bar>5::int\<bar> < \<bar>- 8\<bar>
   \<and> (- 8) + 5 \<noteq> (0::int) \<and> sgn ((- 8) + 5) = sgn (- 8 :: int) \<and> sign ((- 8) + 5) = sign (- 8)
   \<and> fifo_loop [(100, 5)] (- 8) 90 0 = Exited (- 50) [] (- 3)
   \<and> sgn (- 3 :: int) = sgn (- 8 :: int)
   \<and> fifo_add (fifos_init(''AAPL'' \<mapsto> [(100, 5)])) (- 8) 90 ''AAPL'' False
        = Inr (- 50, fifos_init(''AAPL'' \<mapsto> [(90, - 3)]))"
  using residual_keeps_sign [of 5 "- 8" "- 8" "[(100, 5)]" 90 0 "- 50" "[]" "- 3"
      "fifos_init(''AAPL'' \<mapsto> [(100, 5)])" "''AAPL''"]
  by (simp add: sign_def)

section \<open>Sequences of calls from the empty ledger\<close>

lemma lots_ok_pos:
  assumes "\<forall>l \<in> set fifo. snd l > 0"
  shows "lots_ok fifo"
proof -
  have "sgn (snd l) = 1" if "l \<in> set fifo" for l
    using assms that by simp
  then show ?thesis
    unfolding lots_ok_def list_all_iff using assms by fastforce
qed

lemma lots_ok_neg:
  assumes "\<forall>l \<in> set fifo. snd l < 0"
  shows "lots_ok fifo"
proof -
  have "sgn (snd l) = - 1" if "l \<in> set fifo" for l
    using assms that by simp
  then show ?thesis
    unfolding lots_ok_def list_all_iff using assms by fastforce
qed

lemma lots_ok_cases:
  assumes ok: "lots_ok fifo"
  shows "(\<forall>l \<in> set fifo. snd l > 0) \<or> (\<forall>l \<in> set fifo. snd l < 0)"
proof (cases fifo)
  case Nil
  then show ?thesis by simp
next
  case (Cons l0 rest)
  from ok have nz: "\<And>l. l \<in> set fifo \<Longrightarrow> snd l \<noteq> 0"
    and same: "\<And>l l'. l \<in> set fifo \<Longrightarrow> l' \<in> set fifo \<Longrightarrow> sgn (snd l) = sgn (snd l')"
    unfolding lots_ok_def list_all_iff by blast+
  from Cons have l0: "l0 \<in> set fifo" by simp
  show ?thesis
  proof (cases "snd l0 > 0")
    case True
    have "snd l > 0" if "l \<in> set fifo" for l
    proof -
      from same [OF that l0] have "sgn (snd l) = sgn (snd l0)" .
      with True show ?thesis by (simp add: sgn_if split: if_splits)
    qed
    then show ?thesis by blast
  next
    case False
    with nz [OF l0] have neg: "snd l0 < 0" by linarith
    have "snd l < 0" if "l \<in> set fifo" for l
    proof -
      from same [OF that l0] have "sgn (snd l) = sgn (snd l0)" .
      with neg show ?thesis by (simp add: sgn_if split: if_splits)
    qed
    then show ?thesis by blast
  qed
qed

lemma lots_ok_iff:
  "lots_ok fifo \<longleftrightarrow> (\<forall>l \<in> set fifo. snd l > 0) \<or> (\<forall>l \<in> set fifo. snd l < 0)"
  using lots_ok_cases lots_ok_pos lots_ok_neg by blast

lemma fifo_loop_ok:
  "lots_ok fifo \<Longrightarrow> quantity \<noteq> 0 \<Longrightarrow>
     (case fifo_loop fifo quantity price pnl of
        Returned x None \<Rightarrow> True
      | Returned x (Some f) \<Rightarrow> lots_ok f
      | Exited x f r \<Rightarrow> lots_ok (f @ [(price, r)]))"
proof (induction fifo arbitrary: quantity pnl)
  case Nil
  then show ?case by (auto simp: lots_ok_iff)
next
  case (Cons l rest)
  obtain p q where l: "l = (p, q)" by (cases l)
  have rest: "lots_ok rest" using Cons.prems(1) by (auto simp: lots_ok_iff)
  have q: "q \<noteq> 0" using Cons.prems(1) l by (auto simp: lots_ok_iff)
  show ?case
  proof (cases "sign q = sign quantity")
    case True
    then have "(q > 0 \<and> quantity > 0) \<or> (q < 0 \<and> quantity < 0)"
      using q Cons.prems(2) by (auto simp: sign_def split: if_splits)
    then have "lots_ok ((l # rest) @ [(price, quantity)])"
      using Cons.prems(1) l by (auto simp: lots_ok_iff)
    with True l show ?thesis by simp
  next
    case False
    note opp = this
    show ?thesis
    proof (cases "\<bar>q\<bar> \<ge> \<bar>quantity\<bar>")
      case True
      have "q + quantity \<noteq> 0 \<Longrightarrow> lots_ok ((p, q + quantity) # rest)"
      proof -
        assume "q + quantity \<noteq> 0"
        with True opp have "(q > 0 \<and> q + quantity > 0) \<or> (q < 0 \<and> q + quantity < 0)"
          by (auto simp: sign_def split: if_splits)
        then show ?thesis using Cons.prems(1) l by (auto simp: lots_ok_iff)
      qed
      with True opp l rest show ?thesis by simp
    next
      case False
      then have lt: "\<bar>q\<bar> < \<bar>quantity\<bar>" by simp
      have nz: "quantity + q \<noteq> 0"
        using opp lt by (auto simp: sign_def split: if_splits)
      from Cons.IH [OF rest nz, of "pnl + of_int q * (price - p)"] opp False l
      show ?thesis by simp
    qed
  qed
qed

lemma fifo_loop_nonempty:
  "fifo_loop fifo quantity price pnl = Returned x (Some f) \<Longrightarrow> f \<noteq> []"
  by (induction fifo quantity price pnl rule: fifo_loop.induct) (auto split: if_splits)

lemma fifo_loop_sum:
  "(case fifo_loop fifo quantity price pnl of
      Returned x None \<Rightarrow> sum_list (map snd fifo) + quantity = 0
    | Returned x (Some f) \<Rightarrow> sum_list (map snd f) = sum_list (map snd fifo) + quantity
    | Exited x f r \<Rightarrow> sum_list (map snd f) + r = sum_list (map snd fifo) + quantity)"
  by (induction fifo quantity price pnl rule: fifo_loop.induct)
     (auto split: loop_result.splits option.splits)

lemma fifo_match_nonempty:
  assumes "fifos a \<noteq> Some []"
  shows "snd (fifo_match fifos quantity price asset) a \<noteq> Some []"
proof (cases "a = asset")
  case False
  with assms show ?thesis by (simp add: fifo_match_other)
next
  case True
  then show ?thesis
    using fifo_loop_nonempty [of "case fifos asset of None \<Rightarrow> [] | Some f \<Rightarrow> f" quantity price 0]
    by (auto simp: fifo_match_def Let_def split: loop_result.splits option.splits)
qed

lemma fifo_match_ok:
  assumes "\<forall>fifo. fifos a = Some fifo \<longrightarrow> lots_ok fifo" and "quantity \<noteq> 0"
  shows "\<forall>fifo. snd (fifo_match fifos quantity price asset) a = Some fifo \<longrightarrow> lots_ok fifo"
proof (cases "a = asset")
  case False
  with assms show ?thesis by (simp add: fifo_match_other)
next
  case True
  have "lots_ok (case fifos asset of None \<Rightarrow> [] | Some f \<Rightarrow> f)"
  proof (cases "fifos asset")
    case None
    then show ?thesis by (simp add: lots_ok_def)
  next
    case (Some f)
    with assms(1) True show ?thesis by simp
  qed
  from fifo_loop_ok [OF this assms(2), of price 0] True show ?thesis
    by (auto simp: fifo_match_def Let_def split: loop_result.splits option.splits)
qed

lemma fifo_match_net:
  "net_open (snd (fifo_match fifos quantity price asset)) a
     = net_open fifos a + (if asset = a then quantity else 0)"
proof (cases "a = asset")
  case False
  then show ?thesis by (auto simp: net_open_def fifo_match_other)
next
  case True
  then show ?thesis
    using fifo_loop_sum [of "case fifos asset of None \<Rightarrow> [] | Some f \<Rightarrow> f" quantity price 0]
    by (auto simp: net_open_def fifo_match_def Let_def split: loop_result.splits option.splits)
qed

lemma run_matches_total: "\<exists>fifos'. run_matches fifos calls = Inr fifos'"
  by (induction calls arbitrary: fifos)
     (auto simp: fifo_add_def split: prod.splits)

lemma run_matches_step:
  "run_matches fifos ((asset, quantity, price) # calls)
     = run_matches (snd (fifo_match fifos quantity price asset)) calls"
  by (simp add: fifo_add_def split: prod.splits)

lemma run_matches_nonempty:
  "run_matches fifos calls = Inr fifos' \<Longrightarrow> fifos a \<noteq> Some [] \<Longrightarrow> fifos' a \<noteq> Some []"
proof (induction calls arbitrary: fifos)
  case Nil
  then show ?case by simp
next
  case (Cons c calls)
  obtain asset quantity price where c: "c = (asset, quantity, price)" by (cases c)
  from Cons.prems(1) c
  have "run_matches (snd (fifo_match fifos quantity price asset)) calls = Inr fifos'"
    by (simp only: run_matches_step)
  moreover have "snd (fifo_match fifos quantity price asset) a \<noteq> Some []"
    using fifo_match_nonempty [of fifos a quantity price asset] Cons.prems(2) by blast
  ultimately show ?case by (rule Cons.IH)
qed

lemma run_matches_ok:
  "run_matches fifos calls = Inr fifos' \<Longrightarrow> nonzero_calls calls
     \<Longrightarrow> \<forall>fifo. fifos a = Some fifo \<longrightarrow> lots_ok fifo
     \<Longrightarrow> \<forall>fifo. fifos' a = Some fifo \<longrightarrow> lots_ok fifo"
proof (induction calls arbitrary: fifos)
  case Nil
  then show ?case by simp
next
  case (Cons c calls)
  obtain asset quantity price where c: "c = (asset, quantity, price)" by (cases c)
  from Cons.prems(1) c
  have run: "run_matches (snd (fifo_match fifos quantity price asset)) calls = Inr fifos'"
    by (simp only: run_matches_step)
  have nz: "quantity \<noteq> 0" and rest: "nonzero_calls calls"
    using Cons.prems(2) c by (simp_all add: nonzero_calls_def)
  have "\<forall>fifo. snd (fifo_match fifos quantity price asset) a = Some fifo \<longrightarrow> lots_ok fifo"
    using fifo_match_ok [of fifos a quantity price asset] Cons.prems(3) nz by blast
  from Cons.IH [OF run rest this] show ?case .
qed

lemma run_matches_net:
  "run_matches fifos calls = Inr fifos' \<Longrightarrow> net_open fifos' a = net_open fifos a + net_calls a calls"
proof (induction calls arbitrary: fifos)
  case Nil
  then show ?case by simp
next
  case (Cons c calls)
  obtain asset quantity price where c: "c = (asset, quantity, price)" by (cases c)
  from Cons.prems(1) c
  have run: "run_matches (snd (fifo_match fifos quantity price asset)) calls = Inr fifos'"
    by (simp only: run_matches_step)
  from Cons.IH [OF run] c show ?case by (simp add: fifo_match_net)
qed

lemma lots_ok_net:
  assumes "lots_ok fifo" and "fifo \<noteq> []"
  shows "sum_list (map snd fifo) \<noteq> 0"
proof -
  have pos: "(\<forall>l \<in> set xs. snd l > 0) \<Longrightarrow> xs \<noteq> [] \<Longrightarrow> sum_list (map snd xs) > 0"
    for xs :: "lot list"
  proof (induction xs)
    case Nil then show ?case by simp
  next
    case (Cons x xs)
    show ?case
    proof (cases xs)
      case Nil with Cons.prems show ?thesis by simp
    next
      case (Cons y ys)
      with Cons.IH Cons.prems have "sum_list (map snd xs) > 0" by simp
      with Cons.prems show ?thesis by simp
    qed
  qed
  have neg: "(\<forall>l \<in> set xs. snd l < 0) \<Longrightarrow> xs \<noteq> [] \<Longrightarrow> sum_list (map snd xs) < 0"
    for xs :: "lot list"
  proof (induction xs)
    case Nil then show ?case by simp
  next
    case (Cons x xs)
    show ?case
    proof (cases xs)
      case Nil with Cons.prems show ?thesis by simp
    next
      case (Cons y ys)
      with Cons.IH Cons.prems have "sum_list (map snd xs) < 0" by simp
      with Cons.prems show ?thesis by simp
    qed
  qed
  from assms pos [of fifo] neg [of fifo] show ?thesis by (auto simp: lots_ok_iff)
qed

text \<open>
  C4, as amended. In every ledger reached from the empty one by calls whose quantities
  are not zero, every lot of every queue has a quantity that is not zero, and all lots of
  one queue have the same sign.
\<close>

theorem lot_invariant_nonzero_calls:
  assumes "nonzero_calls calls"
    and "run_matches fifos_init calls = Inr fifos"
    and "fifos asset = Some fifo"
  shows "lots_ok fifo"
proof -
  have "\<forall>fifo. fifos_init asset = Some fifo \<longrightarrow> lots_ok fifo"
    by (simp add: fifos_init_def)
  from run_matches_ok [OF assms(2) assms(1) this] assms(3) show ?thesis by simp
qed

theorem lot_invariant_nonzero_calls_witness:
  "nonzero_calls [(''AAPL'', 5, 100), (''AAPL'', 3, 110), (''AAPL'', - 6, 120)]
   \<and> run_matches fifos_init [(''AAPL'', 5, 100), (''AAPL'', 3, 110), (''AAPL'', - 6, 120)]
       = Inr (fifos_init(''AAPL'' \<mapsto> [(110, 2)]))
   \<and> (fifos_init(''AAPL'' \<mapsto> [(110, 2)])) ''AAPL'' = Some [(110, 2)]
   \<and> lots_ok [(110, 2)]"
proof -
  have n: "nonzero_calls [(''AAPL'', 5, 100), (''AAPL'', 3, 110), (''AAPL'', - 6, 120)]"
    by (simp add: nonzero_calls_def)
  have r: "run_matches fifos_init [(''AAPL'', 5, 100), (''AAPL'', 3, 110), (''AAPL'', - 6, 120)]
       = Inr (fifos_init(''AAPL'' \<mapsto> [(110, 2)]))"
    by (simp add: fifo_add_def fifo_match_def fifos_init_def sign_def)
  have s: "(fifos_init(''AAPL'' \<mapsto> [(110, 2)])) ''AAPL'' = Some [(110, 2)]"
    by simp
  from lot_invariant_nonzero_calls [OF n r s] n r s show ?thesis by simp
qed

text \<open>
  The claim as first stated, for all sequences of calls, fails for a call with quantity
  zero: on the empty ledger it leaves a lot of quantity zero.
\<close>

theorem zero_quantity_lot_counterexample:
  "run_matches fifos_init [(''AAPL'', 0, 100)] = Inr (fifos_init(''AAPL'' \<mapsto> [(100, 0)]))
   \<and> (fifos_init(''AAPL'' \<mapsto> [(100, 0)])) ''AAPL'' = Some [(100, 0)]
   \<and> \<not> lots_ok [(100, 0)]"
  by (simp add: fifo_add_def fifo_match_def fifos_init_def lots_ok_def)

text \<open>
  C5, as amended. After every sequence of calls from the empty ledger no key is present
  with an empty queue, and the net open quantity of an asset is the sum of the quantities
  of its calls. When no call has quantity zero, the key of an asset is absent exactly
  when that net quantity is zero.
\<close>

theorem flat_iff_absent:
  assumes "run_matches fifos_init calls = Inr fifos"
  shows "fifos a \<noteq> Some []
       \<and> net_open fifos a = net_calls a calls
       \<and> (nonzero_calls calls \<longrightarrow> (net_calls a calls = 0 \<longleftrightarrow> fifos a = None))"
proof -
  have ne: "fifos a \<noteq> Some []"
    using run_matches_nonempty [OF assms, of a] by (simp add: fifos_init_def)
  have net: "net_open fifos a = net_calls a calls"
    using run_matches_net [OF assms, of a] by (simp add: net_open_def fifos_init_def)
  have "net_calls a calls = 0 \<longleftrightarrow> fifos a = None" if nz: "nonzero_calls calls"
  proof (cases "fifos a")
    case None
    with net show ?thesis by (simp add: net_open_def)
  next
    case (Some fifo)
    have "\<forall>fifo. fifos_init a = Some fifo \<longrightarrow> lots_ok fifo"
      by (simp add: fifos_init_def)
    from run_matches_ok [OF assms nz this] Some have "lots_ok fifo" by simp
    moreover from ne Some have "fifo \<noteq> []" by simp
    ultimately have "sum_list (map snd fifo) \<noteq> 0" by (rule lots_ok_net)
    with net Some show ?thesis by (simp add: net_open_def)
  qed
  with ne net show ?thesis by simp
qed

theorem flat_iff_absent_witness:
  "run_matches fifos_init [(''AAPL'', 5, 100), (''TSLA'', - 2, 50), (''AAPL'', - 5, 120)]
     = Inr (fifos_init(''TSLA'' \<mapsto> [(50, - 2)]))
   \<and> nonzero_calls [(''AAPL'', 5, 100), (''TSLA'', - 2, 50), (''AAPL'', - 5, 120)]
   \<and> net_calls ''AAPL'' [(''AAPL'', 5, 100), (''TSLA'', - 2, 50), (''AAPL'', - 5, 120)] = 0
   \<and> net_open (fifos_init(''TSLA'' \<mapsto> [(50, - 2)])) ''AAPL'' = 0
   \<and> (fifos_init(''TSLA'' \<mapsto> [(50, - 2)])) ''AAPL'' = None
   \<and> (fifos_init(''TSLA'' \<mapsto> [(50, - 2)])) ''AAPL'' \<noteq> Some []"
proof -
  have r: "run_matches fifos_init [(''AAPL'', 5, 100), (''TSLA'', - 2, 50), (''AAPL'', - 5, 120)]
     = Inr (fifos_init(''TSLA'' \<mapsto> [(50, - 2)]))"
    by (simp add: fifo_add_def fifo_match_def fifos_init_def sign_def fun_upd_twist)
  have n: "nonzero_calls [(''AAPL'', 5, 100), (''TSLA'', - 2, 50), (''AAPL'', - 5, 120)]"
    by (simp add: nonzero_calls_def)
  from flat_iff_absent [OF r, of "''AAPL''"] r n show ?thesis by simp
qed

text \<open>
  The claim as first stated, for all sequences of calls, fails when a call has quantity
  zero: buying 5, a call with quantity 0 and selling 5 bring the net quantity to zero,
  and the key stays, with a lot of quantity zero.
\<close>

theorem flat_key_present_counterexample:
  "run_matches fifos_init [(''AAPL'', 5, 100), (''AAPL'', 0, 100), (''AAPL'', - 5, 100)]
     = Inr (fifos_init(''AAPL'' \<mapsto> [(100, 0)]))
   \<and> net_calls ''AAPL'' [(''AAPL'', 5, 100), (''AAPL'', 0, 100), (''AAPL'', - 5, 100)] = 0
   \<and> net_open (fifos_init(''AAPL'' \<mapsto> [(100, 0)])) ''AAPL'' = 0
   \<and> (fifos_init(''AAPL'' \<mapsto> [(100, 0)])) ''AAPL'' \<noteq> None"
  by (simp add: fifo_add_def fifo_match_def fifos_init_def sign_def net_open_def)

section \<open>The arguments of the call in the processing loop\<close>

lemma abs_closing_price:
  fixes q x :: real
  assumes "q \<noteq> 0" and "0 \<le> x"
  shows "\<bar>(- (q * x) - 0) / q\<bar> = x"
proof -
  have "(- (q * x) - 0) / q = - x" using assms(1) by simp
  then show ?thesis using assms(2) by simp
qed

lemma trade_call_Inr:
  assumes "trade_call option_key fifos r = Inr (quantity, price, asset, check_stock)"
  obtains raw_price check_price where
    "raw_price = (case Price r of None \<Rightarrow> 0 | Some p \<Rightarrow> p)"
    "\<not> raw_price < 0"
    "asset_of option_key r raw_price = Inr (check_price, asset, check_stock)"
    "signed_quantity fifos asset (Buy_Sell r) (Transaction_Subcode r) (Quantity r) = Inr quantity"
    "check_trade (Transaction_Subcode r) (- (of_int quantity * check_price)) (Amount r) = Inr ()"
    "quantity \<noteq> 0"
    "price = map_option (\<lambda>amount. \<bar>(amount - Fees r) / of_int quantity\<bar>) (Amount r)"
  using assms
  by (auto simp: trade_call_def bind_error_def Let_def split: if_splits sum.splits prod.splits)

text \<open>
  C3, as amended. For an option row (expiration date present) on which the loop reaches
  the call of the ledger, the price multiplied by 100 is the one used by the consistency
  check of the amount; the price passed to the ledger is the absolute value of
  (amount - fees) / quantity, computed in line 260 (NaN when the amount is), and the
  quantity is not zero. The two prices agree when the fees are zero and the amount is
  exactly minus quantity times the raw price times 100.
\<close>

theorem option_price_passed:
  assumes "Expiration_Date r = Some expire"
    and "trade_call option_key fifos r = Inr (quantity, price, asset, check_stock)"
  shows "quantity \<noteq> 0
       \<and> check_trade (Transaction_Subcode r)
            (- (of_int quantity * ((case Price r of None \<Rightarrow> 0 | Some p \<Rightarrow> p) * 100))) (Amount r)
           = Inr ()
       \<and> price = map_option (\<lambda>amount. \<bar>(amount - Fees r) / of_int quantity\<bar>) (Amount r)
       \<and> (Fees r = 0
            \<and> Amount r
                = Some (- (of_int quantity * ((case Price r of None \<Rightarrow> 0 | Some p \<Rightarrow> p) * 100)))
          \<longrightarrow> price = Some ((case Price r of None \<Rightarrow> 0 | Some p \<Rightarrow> p) * 100))"
proof -
  from assms(2) obtain raw_price check_price where
    raw: "raw_price = (case Price r of None \<Rightarrow> 0 | Some p \<Rightarrow> p)"
    and nonneg: "\<not> raw_price < 0"
    and asset: "asset_of option_key r raw_price = Inr (check_price, asset, check_stock)"
    and chk: "check_trade (Transaction_Subcode r) (- (of_int quantity * check_price)) (Amount r) = Inr ()"
    and nz: "quantity \<noteq> 0"
    and pr: "price = map_option (\<lambda>amount. \<bar>(amount - Fees r) / of_int quantity\<bar>) (Amount r)"
    by (rule trade_call_Inr)
  from asset assms(1) have cp: "check_price = raw_price * 100"
    by (auto simp: asset_of_def bind_error_def split: sum.splits)
  have "price = Some (raw_price * 100)"
    if "Fees r = 0" and "Amount r = Some (- (of_int quantity * (raw_price * 100)))"
  proof -
    have "0 \<le> raw_price * 100" using nonneg by simp
    then have "\<bar>(- (real_of_int quantity * (raw_price * 100)) - 0) / real_of_int quantity\<bar>
            = raw_price * 100"
      using abs_closing_price [of "real_of_int quantity" "raw_price * 100"] nz by simp
    moreover have "price = Some \<bar>(- (real_of_int quantity * (raw_price * 100)) - 0)
                                   / real_of_int quantity\<bar>"
      by (simp only: pr that option.map)
    ultimately show ?thesis by (simp only:)
  qed
  with nz chk cp pr raw show ?thesis by simp
qed

theorem option_price_passed_witness:
  "Expiration_Date
     \<lparr>Transaction_Subcode = ''Buy to Open'', Buy_Sell = ''Buy'', Call_Put = ''C'',
      Symbol = ''AAPL'', Expiration_Date = Some ''01/15/2021'', Strike = 100, Quantity = 2,
      Price = Some (3 / 2), Amount = Some (- 300), Fees = 0\<rparr> = Some ''01/15/2021''
   \<and> trade_call (Inr ''AAPL C100 21-01-15'') fifos_init
     \<lparr>Transaction_Subcode = ''Buy to Open'', Buy_Sell = ''Buy'', Call_Put = ''C'',
      Symbol = ''AAPL'', Expiration_Date = Some ''01/15/2021'', Strike = 100, Quantity = 2,
      Price = Some (3 / 2), Amount = Some (- 300), Fees = 0\<rparr>
     = Inr (2, Some 150, ''AAPL C100 21-01-15'', False)
   \<and> check_trade ''Buy to Open'' (- (of_int 2 * (3 / 2 * 100))) (Some (- 300)) = Inr ()
   \<and> Some (150 :: real) = Some (3 / 2 * 100)"
proof -
  let ?r = "\<lparr>Transaction_Subcode = ''Buy to Open'', Buy_Sell = ''Buy'', Call_Put = ''C'',
      Symbol = ''AAPL'', Expiration_Date = Some ''01/15/2021'', Strike = 100, Quantity = 2,
      Price = Some (3 / 2), Amount = Some (- 300), Fees = 0\<rparr>"
  have e: "Expiration_Date ?r = Some ''01/15/2021''" by simp
  have t: "trade_call (Inr ''AAPL C100 21-01-15'') fifos_init ?r
     = Inr (2, Some 150, ''AAPL C100 21-01-15'', False)"
    by (simp add: trade_call_def asset_of_def signed_quantity_def check_trade_def isclose_def
        bind_error_def)
  from option_price_passed [OF e t] e t show ?thesis by simp
qed

text \<open>
  The claim as first stated (the price passed is the raw price times 100) fails for a
  row with fees: one contract bought at 1.5 for an amount of -150 with fees of 1 is passed
  at 151, not 150.
\<close>

theorem option_price_counterexample:
  "trade_call (Inr ''AAPL C100 21-01-15'') fifos_init
     \<lparr>Transaction_Subcode = ''Buy to Open'', Buy_Sell = ''Buy'', Call_Put = ''C'',
      Symbol = ''AAPL'', Expiration_Date = Some ''01/15/2021'', Strike = 100, Quantity = 1,
      Price = Some (3 / 2), Amount = Some (- 150), Fees = 1\<rparr>
     = Inr (1, Some 151, ''AAPL C100 21-01-15'', False)
   \<and> (151 :: real) \<noteq> 3 / 2 * 100"
  by (simp add: trade_call_def asset_of_def signed_quantity_def check_trade_def isclose_def
      bind_error_def)

text \<open>
  What lines 256 to 258 do for an expiration, exercise or assignment row that reaches
  them: when the Buy/Sell column is not \<^verbatim>\<open>'Sell'\<close>, the quantity is negated when the front
  lot of the asset is long and kept when it is not, and when the asset has no entry the
  lookup raises \<^verbatim>\<open>KeyError\<close>, which ends the run. When the column is \<^verbatim>\<open>'Sell'\<close> the first
  operand of the \<^verbatim>\<open>or\<close> decides and the ledger is not looked at.
\<close>

lemma direction_inference:
  assumes "Transaction_Subcode r \<in> set [''Expiration'', ''Exercise'', ''Assignment'']"
    and "\<not> (case Price r of None \<Rightarrow> 0 | Some p \<Rightarrow> p) < 0"
    and "asset_of option_key r (case Price r of None \<Rightarrow> 0 | Some p \<Rightarrow> p)
           = Inr (price, asset, check_stock)"
  shows "(Buy_Sell r \<noteq> ''Sell'' \<and> fifos asset = Some ((p, q) # rest) \<longrightarrow>
            signed_quantity fifos asset (Buy_Sell r) (Transaction_Subcode r) (Quantity r)
              = Inr (if q > 0 then - Quantity r else Quantity r))
       \<and> (Buy_Sell r \<noteq> ''Sell'' \<and> fifos asset = None \<longrightarrow>
            signed_quantity fifos asset (Buy_Sell r) (Transaction_Subcode r) (Quantity r)
              = Inl KeyError
            \<and> trade_call option_key fifos r = Inl KeyError)
       \<and> (Buy_Sell r = ''Sell'' \<longrightarrow>
            signed_quantity fifos asset (Buy_Sell r) (Transaction_Subcode r) (Quantity r)
              = Inr (- Quantity r))"
proof -
  have long: "signed_quantity fifos asset (Buy_Sell r) (Transaction_Subcode r) (Quantity r)
              = Inr (if q > 0 then - Quantity r else Quantity r)"
    if "Buy_Sell r \<noteq> ''Sell''" and "fifos asset = Some ((p, q) # rest)"
    using that assms(1) by (simp add: signed_quantity_def fifos_islong_def bind_error_def)
  have flat: "signed_quantity fifos asset (Buy_Sell r) (Transaction_Subcode r) (Quantity r)
              = Inl KeyError"
    if "Buy_Sell r \<noteq> ''Sell''" and "fifos asset = None"
    using that assms(1) by (simp add: signed_quantity_def fifos_islong_def bind_error_def)
  have abort: "trade_call option_key fifos r = Inl KeyError"
    if "Buy_Sell r \<noteq> ''Sell''" and "fifos asset = None"
    using flat [OF that] assms(2,3) by (simp add: trade_call_def bind_error_def Let_def)
  have sell: "signed_quantity fifos asset (Buy_Sell r) (Transaction_Subcode r) (Quantity r)
              = Inr (- Quantity r)"
    if "Buy_Sell r = ''Sell''"
    using that by (simp add: signed_quantity_def)
  from long flat abort sell show ?thesis by blast
qed

lemma direction_inference_witness:
  "signed_quantity (fifos_init(''AAPL C100 21-01-15'' \<mapsto> [(150, 1)])) ''AAPL C100 21-01-15''
       ''nan'' ''Expiration'' 1 = Inr (- 1)
   \<and> signed_quantity (fifos_init(''AAPL C100 21-01-15'' \<mapsto> [(150, - 1)])) ''AAPL C100 21-01-15''
       ''nan'' ''Expiration'' 1 = Inr 1
   \<and> fifos_init ''AAPL C100 21-01-15'' = None
   \<and> trade_call (Inr ''AAPL C100 21-01-15'') fifos_init
       \<lparr>Transaction_Subcode = ''Expiration'', Buy_Sell = ''nan'', Call_Put = ''C'',
        Symbol = ''AAPL'', Expiration_Date = Some ''01/15/2021'', Strike = 100, Quantity = 1,
        Price = None, Amount = Some 0, Fees = 0\<rparr>
       = Inl KeyError"
proof -
  let ?r = "\<lparr>Transaction_Subcode = ''Expiration'', Buy_Sell = ''nan'', Call_Put = ''C'',
        Symbol = ''AAPL'', Expiration_Date = Some ''01/15/2021'', Strike = 100, Quantity = 1,
        Price = None, Amount = Some 0, Fees = 0\<rparr>"
  let ?k = "''AAPL C100 21-01-15''"
  have s: "Transaction_Subcode ?r \<in> set [''Expiration'', ''Exercise'', ''Assignment'']"
    by simp
  have p: "\<not> (case Price ?r of None \<Rightarrow> 0 | Some p \<Rightarrow> p) < 0" by simp
  have a: "asset_of (Inr ?k) ?r (case Price ?r of None \<Rightarrow> 0 | Some p \<Rightarrow> p) = Inr (0, ?k, False)"
    by (simp add: asset_of_def bind_error_def)
  have b: "Buy_Sell ?r \<noteq> ''Sell''" by simp
  from direction_inference [OF s p a, of "fifos_init(?k \<mapsto> [(150, 1)])" 150 1 "[]"]
    direction_inference [OF s p a, of "fifos_init(?k \<mapsto> [(150, - 1)])" 150 "- 1" "[]"]
    direction_inference [OF s p a, of fifos_init]
    b
  show ?thesis by (simp add: fifos_init_def)
qed

text \<open>
  C7. Direction inference for expiration, exercise and assignment rows: the quantity is to
  be negated exactly when the position of the asset is long, kept when it is short, and
  an error is to be raised when the asset has no open position. The comment of lines 253
  to 255 says the same: the Buy/Sell column is not set correctly on these rows, so the
  existing position decides. The code does not do this for a row whose Buy/Sell column
  is \<^verbatim>\<open>'Sell'\<close>, which \<^verbatim>\<open>check_param\<close> accepts: on a short position (\<^verbatim>\<open>fifos_islong\<close>
  is false) the quantity of 1 becomes -1 and the call of line 261 is made with it, which
  adds a second short lot, and on an asset with no entry the quantity becomes -1 and
  nothing is raised.
\<close>

theorem direction_sell_short_circuit:
  "fifos_islong (fifos_init(''AAPL C100 21-01-15'' \<mapsto> [(150, - 1)])) ''AAPL C100 21-01-15''
     = Inr False
   \<and> signed_quantity (fifos_init(''AAPL C100 21-01-15'' \<mapsto> [(150, - 1)]))
       ''AAPL C100 21-01-15'' ''Sell'' ''Expiration'' 1 = Inr (- 1)
   \<and> trade_call (Inr ''AAPL C100 21-01-15'')
       (fifos_init(''AAPL C100 21-01-15'' \<mapsto> [(150, - 1)]))
       \<lparr>Transaction_Subcode = ''Expiration'', Buy_Sell = ''Sell'', Call_Put = ''C'',
        Symbol = ''AAPL'', Expiration_Date = Some ''01/15/2021'', Strike = 100, Quantity = 1,
        Price = None, Amount = Some 0, Fees = 0\<rparr>
       = Inr (- 1, Some 0, ''AAPL C100 21-01-15'', False)
   \<and> fifo_add (fifos_init(''AAPL C100 21-01-15'' \<mapsto> [(150, - 1)])) (- 1) 0
       ''AAPL C100 21-01-15'' False
       = Inr (0, fifos_init(''AAPL C100 21-01-15'' \<mapsto> [(150, - 1), (0, - 1)]))
   \<and> fifos_init ''AAPL C100 21-01-15'' = None
   \<and> signed_quantity fifos_init ''AAPL C100 21-01-15'' ''Sell'' ''Expiration'' 1 = Inr (- 1)"
  by (simp add: trade_call_def asset_of_def signed_quantity_def check_trade_def
      fifos_islong_def bind_error_def fifos_init_def fifo_add_def fifo_match_def sign_def)

end
